theory Spec2Isabelle
  imports Complex_Main "HOL-Library.Word"
begin

section \<open>Characters and strings\<close>

text \<open>
  The script \<^verbatim>\<open>Scripts/minifyShadersFolder.py\<close> works on Python strings. A string is
  modelled as a \<^typ>\<open>string\<close>, each \<^typ>\<open>char\<close> standing for one code point below 256
  (shader sources are ASCII). The characters the script names by escape sequences are
  abbreviated here.
\<close>

abbreviation NL :: char where "NL \<equiv> CHR 0x0A"
abbreviation CR :: char where "CR \<equiv> CHR 0x0D"
abbreviation BSL :: char where "BSL \<equiv> CHR 0x5C"
abbreviation DQ :: char where "DQ \<equiv> CHR 0x22"
abbreviation TAB :: char where "TAB \<equiv> CHR 0x09"

text \<open>
  \<open>isspace\<close> is the class \<^verbatim>\<open>\s\<close> of Python's \<^verbatim>\<open>re\<close> on \<^verbatim>\<open>str\<close> patterns, cut to code
  points below 256; \<open>blank\<close> is the class \<^verbatim>\<open>[^\S\r\n]\<close> of line 188: white space
  other than carriage return and line feed.
\<close>

definition isspace :: "char \<Rightarrow> bool" where
  "isspace c = (c \<in> set [CHR 0x09, CHR 0x0A, CHR 0x0B, CHR 0x0C, CHR 0x0D,
     CHR 0x1C, CHR 0x1D, CHR 0x1E, CHR 0x1F, CHR 0x20, CHR 0x85, CHR 0xA0])"

definition blank :: "char \<Rightarrow> bool" where
  "blank c = (isspace c \<and> c \<noteq> CR \<and> c \<noteq> NL)"

section \<open>The minification transform (lines 180 to 190)\<close>

text \<open>
  Line 182, \<^verbatim>\<open>re.sub(r"//.*\n", "\n", ln)\<close>: the leftmost \<^verbatim>\<open>//\<close> that is followed,
  before the end of the string, by a line feed starts a match; \<^verbatim>\<open>.\<close> matches every
  character but the line feed, so the match ends at the first line feed after the
  marker, and the whole match is replaced by one line feed. The scan then goes on
  behind the match. Where no line feed follows, nothing matches.
\<close>

function removeComments :: "string \<Rightarrow> string" where
  "removeComments [] = []"
| "removeComments (c # cs) =
    (if c = CHR ''/'' \<and> take 1 cs = ''/'' \<and> NL \<in> set cs
     then NL # removeComments (tl (dropWhile (\<lambda>d. d \<noteq> NL) cs))
     else c # removeComments cs)"
  by pat_completeness auto
termination
proof (relation "measure length")
  fix c :: char and cs :: string
  have "length (tl (dropWhile (\<lambda>d. d \<noteq> NL) cs)) \<le> length cs"
    using length_dropWhile_le [of "\<lambda>d. d \<noteq> NL" cs] by simp
  then show "(tl (dropWhile (\<lambda>d. d \<noteq> NL) cs), c # cs) \<in> measure length" by simp
qed simp_all

text \<open>
  Line 184: the replacement template \<^verbatim>\<open>"\\\\\\\\"\<close> is four backslashes in the Python
  string and two in the substituted text. Line 186: a line feed becomes the two
  characters backslash and \<^verbatim>\<open>n\<close>.
\<close>

definition doubleBackslashes :: "string \<Rightarrow> string" where
  "doubleBackslashes s = concat (map (\<lambda>c. if c = BSL then [BSL, BSL] else [c]) s)"

definition escapeNewlines :: "string \<Rightarrow> string" where
  "escapeNewlines s = concat (map (\<lambda>c. if c = NL then [BSL, CHR ''n''] else [c]) s)"

text \<open>Line 188: every maximal run of blanks becomes one space.\<close>

function removeExtraWhitespace :: "string \<Rightarrow> string" where
  "removeExtraWhitespace [] = []"
| "removeExtraWhitespace (c # cs) =
    (if blank c then CHR '' '' # removeExtraWhitespace (dropWhile blank cs)
     else c # removeExtraWhitespace cs)"
  by pat_completeness auto
termination
proof (relation "measure length")
  fix c :: char and cs :: string
  show "(dropWhile blank cs, c # cs) \<in> measure length"
    using length_dropWhile_le [of blank cs] by simp
qed simp_all

text \<open>Line 190: a double quote gets a backslash in front.\<close>

definition escapeQuotes :: "string \<Rightarrow> string" where
  "escapeQuotes s = concat (map (\<lambda>c. if c = DQ then [BSL, DQ] else [c]) s)"

text \<open>The five substitutions in the order of the loop body.\<close>

definition minifyLine :: "string \<Rightarrow> string" where
  "minifyLine line = escapeQuotes (removeExtraWhitespace (escapeNewlines (doubleBackslashes (removeComments line))))"

section \<open>Library functions the script calls\<close>

text \<open>
  \<^verbatim>\<open>str(n)\<close> and \<^verbatim>\<open>"%d" % n\<close> of a natural number: its decimal digits.
\<close>

fun str_nat :: "nat \<Rightarrow> string" where
  "str_nat n =
     (if n < 10 then [''0123456789'' ! n]
      else str_nat (n div 10) @ [''0123456789'' ! (n mod 10)])"

text \<open>
  \<^verbatim>\<open>os.path\<close> in its POSIX form (\<^verbatim>\<open>posixpath\<close>): the separator is the slash.
  \<^verbatim>\<open>basename\<close> is what follows the last slash, \<^verbatim>\<open>dirname\<close> what precedes it, with
  trailing slashes removed unless it consists of slashes only.
\<close>

definition basename :: "string \<Rightarrow> string" where
  "basename p = rev (takeWhile (\<lambda>c. c \<noteq> CHR ''/'') (rev p))"

definition dirname :: "string \<Rightarrow> string" where
  "dirname p =
     (let head = rev (dropWhile (\<lambda>c. c \<noteq> CHR ''/'') (rev p))
      in if head \<noteq> [] \<and> \<not> list_all (\<lambda>c. c = CHR ''/'') head
         then rev (dropWhile (\<lambda>c. c = CHR ''/'') (rev head))
         else head)"

definition join :: "string \<Rightarrow> string \<Rightarrow> string" where
  "join a b =
     (if take 1 b = ''/'' then b
      else if a = [] \<or> take 1 (rev a) = ''/'' then a @ b
      else a @ ''/'' @ b)"

text \<open>
  \<^verbatim>\<open>os.path.splitext\<close>: the extension starts at the last dot of the last path
  component, unless only dots precede that dot in the component.
\<close>

definition splitext :: "string \<Rightarrow> string \<times> string" where
  "splitext p =
     (let base = basename p;
          dir = take (length p - length base) p;
          stem = rev (tl (dropWhile (\<lambda>c. c \<noteq> CHR ''.'') (rev base)));
          ext = CHR ''.'' # rev (takeWhile (\<lambda>c. c \<noteq> CHR ''.'') (rev base))
      in if CHR ''.'' \<in> set base \<and> \<not> list_all (\<lambda>c. c = CHR ''.'') stem
         then (dir @ stem, ext)
         else (p, []))"

text \<open>\<^verbatim>\<open>needle in hay\<close> on strings: \<open>needle\<close> occurs in \<open>hay\<close> as a contiguous part.\<close>

fun startswith :: "string \<Rightarrow> string \<Rightarrow> bool" where
  "startswith s [] = True"
| "startswith [] (p # ps) = False"
| "startswith (c # cs) (p # ps) = (c = p \<and> startswith cs ps)"

fun contains :: "string \<Rightarrow> string \<Rightarrow> bool" where
  "contains needle [] = (needle = [])"
| "contains needle (c # cs) = (startswith (c # cs) needle \<or> contains needle cs)"

section \<open>The world the script runs in\<close>

text \<open>
  What the script reads from outside is a record of functions: the command line, the
  result of \<^verbatim>\<open>glob.glob\<close>, modification times (\<open>None\<close> where \<^verbatim>\<open>os.stat\<close> raises),
  \<^verbatim>\<open>platform.system()\<close>, the compiler run (\<open>None\<close> where \<^verbatim>\<open>subprocess.run\<close> itself
  raises, else return code and decoded standard error), and the files it opens.
  What it changes is the text printed and the files written.
\<close>

type_synonym byte = "8 word"

datatype exn = IndexError | OSError | UnicodeDecodeError

datatype abort = SysExit int | Uncaught exn

datatype 'a opened = Content 'a | OpenFails | ReadFails

record env =
  argv :: "string list"
  glob :: "string \<Rightarrow> string list"
  st_mtime :: "string \<Rightarrow> real option"
  platform_system :: string
  subprocess_run :: "string list \<Rightarrow> (int \<times> string) option"
  read_bytes :: "string \<Rightarrow> byte list option"
  readlines :: "string \<Rightarrow> string list opened"
  can_write :: "string \<Rightarrow> bool"

record world =
  stdout :: "string list"
  fs :: "string \<rightharpoonup> string"

definition print :: "string \<Rightarrow> world \<Rightarrow> world" where
  "print s w = w\<lparr>stdout := stdout w @ [s]\<rparr>"

section \<open>Command line (lines 13 to 35)\<close>

definition usage :: "string list" where
  "usage =
    [''Usage: python minifyShadersFolder.py inputFolder outputFile [slangCompiler] [mainEntryPoint] [slangTarget]'',
     ''  inputFolder - Folder containing Slang files'',
     ''  outputMinifiedFile - Output minified C++ header file'',
     ''  slangCompiler - Folder for slang executable to compile main entryPoint file (if omitted, just minifies no compilation)'',
     ''  mainEntryPoint - Main entry point filename, also used for precompiled DXIL C++ header filename (if omitted, assumes MainEntryPoint)'',
     ''  slangTarget - Slangc compiling target (metal, dxil, spirv)'']"

record args =
  hlslFolder :: string
  outputFile :: string
  nameSpaceName :: string
  slangc :: string
  mainEntryPoint :: string
  target :: string

text \<open>
  Called only behind the usage check, so \<open>av\<close> has 3 to 6 entries. The three optional
  assignments are kept as the script has them: each tests the length for equality,
  and the one for six arguments assigns \<^verbatim>\<open>mainEntryPoint\<close>.
\<close>

definition parseArgs :: "string list \<Rightarrow> args" where
  "parseArgs av =
     (let slangc0 = [];
          slangc1 = (if length av = 4 then av ! 3 else slangc0);
          mainEntryPoint0 = ''MainEntryPoints'';
          mainEntryPoint1 = (if length av = 5 then av ! 4 else mainEntryPoint0);
          target0 = [];
          mainEntryPoint2 = (if length av = 6 then av ! 5 else mainEntryPoint1)
      in \<lparr>hlslFolder = av ! 1,
          outputFile = av ! 2,
          nameSpaceName = fst (splitext (basename (av ! 2))),
          slangc = slangc1,
          mainEntryPoint = mainEntryPoint2,
          target = target0\<rparr>)"

section \<open>Freshness gate and entry point (lines 40 to 62)\<close>

definition outputModTime :: "env \<Rightarrow> args \<Rightarrow> real" where
  "outputModTime e a = (case st_mtime e (outputFile a) of None \<Rightarrow> 0 | Some t \<Rightarrow> t)"

text \<open>
  The loop of lines 52 to 57, with its two variables as the accumulator. The
  \<^verbatim>\<open>os.stat\<close> of an input file is not guarded: where it raises, the script ends with
  the exception.
\<close>

fun scanFiles :: "env \<Rightarrow> string \<Rightarrow> real \<Rightarrow> string list \<Rightarrow> bool \<times> string \<Rightarrow> exn + bool \<times> string" where
  "scanFiles e mep t [] acc = Inr acc"
| "scanFiles e mep t (hlslFile # rest) (rebuildNeeded, entryPointFile) =
     (let entryPointFile1 = (if contains mep hlslFile then hlslFile else entryPointFile)
      in case st_mtime e hlslFile of
           None \<Rightarrow> Inl OSError
         | Some fileModTime \<Rightarrow>
             scanFiles e mep t rest
               (if fileModTime > t then True else rebuildNeeded, entryPointFile1))"

section \<open>Binary packer (lines 64 to 123)\<close>

definition platformTarget :: "string \<Rightarrow> string option" where
  "platformTarget sys =
     (if sys = ''Darwin'' then Some ''metal''
      else if sys = ''Windows'' then Some ''dxil''
      else if sys = ''Linux'' then Some ''spirv''
      else None)"

text \<open>Line 67 and its branch; \<open>None\<close> is the unsupported platform.\<close>

definition chooseTarget :: "string \<Rightarrow> string \<Rightarrow> string option" where
  "chooseTarget tgt sys =
     (if tgt \<noteq> ''metal'' \<or> tgt \<noteq> ''dxil'' \<or> tgt \<noteq> ''spirv''
      then platformTarget sys else Some tgt)"

record job =
  compiledFile :: string
  compiledTempFile :: string
  variableName :: string
  cmd :: "string list"
  announce :: string

definition compileJob :: "args \<Rightarrow> string \<Rightarrow> string \<Rightarrow> job" where
  "compileJob a entryPointFile tgt =
     (if tgt = ''metal'' then
        (let headerFileName = mainEntryPoint a @ ''.h'';
             metalFileName = mainEntryPoint a @ ''.metal'';
             cf = join (dirname (outputFile a)) headerFileName;
             ctf = join (dirname (outputFile a)) metalFileName
         in \<lparr>compiledFile = cf, compiledTempFile = ctf,
             variableName = ''g_s'' @ mainEntryPoint a @ ''metal'',
             cmd = [slangc a, entryPointFile, ''-target'', tgt, ''-o'', ctf],
             announce = ''Compiling main entry point '' @ entryPointFile @ '' with Slang compiler ''
               @ slangc a @ '' to MSL in header '' @ cf\<rparr>)
      else if tgt = ''dxil'' then
        (let cf = dirname (outputFile a) @ ''/'' @ mainEntryPoint a @ ''.h'';
             ctf = dirname (outputFile a) @ ''/'' @ mainEntryPoint a @ ''.dxil''
         in \<lparr>compiledFile = cf, compiledTempFile = ctf,
             variableName = ''g_s'' @ mainEntryPoint a @ ''DXIL'',
             cmd = [slangc a, entryPointFile, ''-DDIRECTX=1'',
                    ''-DRUNTIME_COMPILE_EVALUATE_MATERIAL_FUNCTION=1'', ''-target'', tgt,
                    ''-profile'', ''lib_6_3'', ''-o'', ctf],
             announce = ''Compiling main entry point '' @ entryPointFile @ '' with Slang compiler ''
               @ slangc a @ '' to DXIL in header '' @ cf\<rparr>)
      else
        (let cf = dirname (outputFile a) @ ''/'' @ mainEntryPoint a @ ''.h'';
             ctf = dirname (outputFile a) @ ''/'' @ mainEntryPoint a @ ''.spv''
         in \<lparr>compiledFile = cf, compiledTempFile = ctf,
             variableName = ''g_s'' @ mainEntryPoint a @ ''SPIRV'',
             cmd = [slangc a, entryPointFile, ''-target'', ''spirv'', ''-o'', ctf],
             announce = ''Compiling main entry point '' @ entryPointFile @ '' with Slang compiler ''
               @ slangc a @ '' to SPIRV in header '' @ cf\<rparr>))"

text \<open>\<^verbatim>\<open>bytes.hex()\<close>: two lower-case hexadecimal digits for each byte.\<close>

definition hexByte :: "byte \<Rightarrow> string" where
  "hexByte b = [''0123456789abcdef'' ! (unat b div 16), ''0123456789abcdef'' ! (unat b mod 16)]"

text \<open>
  The loop of lines 114 to 120 over \<^verbatim>\<open>range(numWords)\<close>. \<^verbatim>\<open>data[i * 4 + 3]\<close> is read
  first and has the largest index: where it is out of range, Python raises
  \<^verbatim>\<open>IndexError\<close>, and nothing of the header is written.
\<close>

fun packWords :: "byte list \<Rightarrow> nat \<Rightarrow> nat list \<Rightarrow> string \<Rightarrow> exn + string" where
  "packWords data numWords [] headerStr = Inr headerStr"
| "packWords data numWords (i # rest) headerStr =
     (if i * 4 + 3 < length data then
        (let wordBytes = [data ! (i * 4 + 3), data ! (i * 4 + 2), data ! (i * 4 + 1), data ! (i * 4 + 0)];
             h1 = headerStr @ ''0x'' @ concat (map hexByte wordBytes);
             h2 = (if i < numWords - 1 then h1 @ '', '' else h1);
             h3 = (if i mod 8 = 7 then h2 @ [NL] else h2)
         in packWords data numWords rest h3)
      else Inl IndexError)"

text \<open>
  Lines 111 to 121. \<^verbatim>\<open>math.ceil(numBytes / 4)\<close> is \<open>(numBytes + 3) div 4\<close> (the
  floating-point quotient is exact for every length below \<open>2 ^ 53\<close>).
\<close>

definition packBinary :: "string \<Rightarrow> byte list \<Rightarrow> exn + string" where
  "packBinary vn data =
     (let numBytes = length data;
          numWords = (numBytes + 3) div 4;
          headerStr = ''static const array<unsigned int, '' @ str_nat numWords @ ''> '' @ vn
                      @ '' = {'' @ [NL]
      in case packWords data numWords [0..<numWords] headerStr of
           Inl x \<Rightarrow> Inl x
         | Inr h \<Rightarrow> Inr (h @ ''};'' @ [NL]))"

definition packerEnabled :: "args \<Rightarrow> string \<Rightarrow> bool" where
  "packerEnabled a entryPointFile = (length (slangc a) > 0 \<and> length entryPointFile > 0)"

definition binaryPacker :: "env \<Rightarrow> args \<Rightarrow> string \<Rightarrow> world \<Rightarrow> world \<times> abort option" where
  "binaryPacker e a entryPointFile w =
     (case chooseTarget (target a) (platform_system e) of
        None \<Rightarrow> (print (''Unsupported platform: '' @ platform_system e) w, Some (SysExit (- 1)))
      | Some tgt \<Rightarrow>
          (let j = compileJob a entryPointFile tgt;
               w1 = print (announce j) w
           in case subprocess_run e (cmd j) of
                None \<Rightarrow> (w1, Some (Uncaught OSError))
              | Some (returncode, err) \<Rightarrow>
                  if returncode \<noteq> 0
                  then (print err (print (''Compliation failed on '' @ entryPointFile) w1),
                        Some (SysExit (- 1)))
                  else (case read_bytes e (compiledTempFile j) of
                          None \<Rightarrow> (w1, Some (Uncaught OSError))
                        | Some data \<Rightarrow>
                            (case packBinary (variableName j) data of
                               Inl x \<Rightarrow> (w1, Some (Uncaught x))
                             | Inr headerStr \<Rightarrow>
                                 if can_write e (compiledFile j)
                                 then (w1\<lparr>fs := (fs w1)(compiledFile j \<mapsto> headerStr)\<rparr>, None)
                                 else (w1, Some (Uncaught OSError))))))"

section \<open>Minifier (lines 126 to 223)\<close>

definition directorySymbolName :: string where
  "directorySymbolName = ''g_sDirectory''"

text \<open>Line 173: the \<^verbatim>\<open>#line\<close> statement put in front of the lines read.\<close>

definition lineDirective :: "string \<Rightarrow> string" where
  "lineDirective hlslFile =
     ''#line 1 '' @ [DQ] @ map (\<lambda>c. if c = BSL then CHR ''/'' else c) hlslFile @ [DQ, NL]"

text \<open>
  The loop of lines 180 to 205 and the write of line 208. \<open>numLines\<close> is
  \<^verbatim>\<open>len(lines)\<close>; the last argument is the text written to the header so far.
\<close>

fun minifyLines :: "nat \<Rightarrow> string list \<Rightarrow> nat \<Rightarrow> string \<Rightarrow> string \<Rightarrow> string" where
  "minifyLines numLines [] lineNo currOutputStr out =
     out @ [TAB, TAB, DQ] @ currOutputStr @ [DQ, CHR '' '', NL, TAB] @ '';'' @ [NL]"
| "minifyLines numLines (line # rest) lineNo currOutputStr out =
     (let l1 = minifyLine line;
          lineNo1 = lineNo + 1;
          l2 = (if lineNo1 = numLines then l1 @ [BSL, CHR ''n''] else l1);
          curr1 = currOutputStr @ l2
      in if length curr1 > 100
         then minifyLines numLines rest lineNo1 []
                (out @ [TAB, DQ] @ curr1 @ [DQ, CHR '' '', BSL, NL])
         else minifyLines numLines rest lineNo1 curr1 out)"

text \<open>Lines 173 to 208 for one file: what is written behind the declaration line.\<close>

definition stringLiteral :: "string \<Rightarrow> string list \<Rightarrow> string" where
  "stringLiteral hlslFile lines =
     (let lines1 = lineDirective hlslFile # lines
      in minifyLines (length lines1) lines1 0 [] [])"

definition stringName :: "string \<Rightarrow> string" where
  "stringName hlslFile = ''g_s'' @ fst (splitext (basename hlslFile))"

definition directoryEntry :: "string \<Rightarrow> string" where
  "directoryEntry hlslFile =
     [TAB, TAB] @ ''{ '' @ [DQ] @ basename hlslFile @ [DQ] @ '', '' @ stringName hlslFile @ '' }''"

definition conflictMessage :: "string \<Rightarrow> string" where
  "conflictMessage hlslFile =
     ''Invalid HLSL filename '' @ basename hlslFile
     @ '' name conflict with built-in directory map named '' @ directorySymbolName"

record minifier =
  n :: nat
  directoryString :: string
  headerOutput :: string
  printed :: "string list"

text \<open>The body of the loop of line 145 for a file that was opened and read.\<close>

definition minifyFile :: "nat \<Rightarrow> string \<Rightarrow> string list \<Rightarrow> minifier \<Rightarrow> minifier" where
  "minifyFile numFiles hlslFile lines m =
     (let p1 = (if stringName hlslFile = directorySymbolName
                then printed m @ [conflictMessage hlslFile] else printed m);
          h1 = headerOutput m @ [NL, TAB] @ ''// Minified string created from '' @ hlslFile @ [NL];
          h2 = h1 @ [TAB] @ ''static const std::string '' @ stringName hlslFile @ '' = '' @ [NL];
          h3 = h2 @ stringLiteral hlslFile lines;
          n1 = n m + 1;
          d1 = directoryString m @ directoryEntry hlslFile;
          d2 = (if n1 = numFiles then d1 @ [NL, TAB] @ ''};'' @ [NL] else d1 @ '','' @ [NL])
      in \<lparr>n = n1, directoryString = d2, headerOutput = h3, printed = p1\<rparr>)"

fun minifyFiles :: "env \<Rightarrow> nat \<Rightarrow> string list \<Rightarrow> minifier \<Rightarrow> minifier \<times> abort option" where
  "minifyFiles e numFiles [] m = (m, None)"
| "minifyFiles e numFiles (hlslFile # rest) m =
     (let m1 = m\<lparr>printed := printed m @
                 [[TAB] @ '' Minifying file '' @ str_nat (n m + 1) @ '' of '' @ str_nat numFiles
                  @ '': '' @ hlslFile]\<rparr>
      in case readlines e hlslFile of
           OpenFails \<Rightarrow>
             (m1\<lparr>printed := printed m1 @ [''Failed to open: '' @ hlslFile]\<rparr>, Some (SysExit (- 1)))
         | ReadFails \<Rightarrow> (m1, Some (Uncaught UnicodeDecodeError))
         | Content lines \<Rightarrow> minifyFiles e numFiles rest (minifyFile numFiles hlslFile lines m1))"

definition directoryHeader :: string where
  "directoryHeader =
     [NL, TAB] @ ''// Directory map, used to get file contents from HLSL filename.'' @ [NL]
     @ [TAB] @ ''static const std::map<std::string , const std::string &> '' @ directorySymbolName
     @ '' = {'' @ [NL]"

definition banner :: "env \<Rightarrow> args \<Rightarrow> nat \<Rightarrow> string" where
  "banner e a numFiles =
     ''// Minified HLSL header file.'' @ [NL] @ ''// Automatically generated by '' @ argv e ! 0
     @ '' from '' @ str_nat numFiles @ '' files in folder '' @ hlslFolder a @ [NL]
     @ ''namespace '' @ nameSpaceName a @ '' {'' @ [NL]"

text \<open>
  Lines 126 to 223. The header is opened for writing before the loop, so an abort
  inside the loop leaves the text written so far.
\<close>

definition minify :: "env \<Rightarrow> args \<Rightarrow> string list \<Rightarrow> world \<Rightarrow> world \<times> abort option" where
  "minify e a files w =
     (let numFiles = length files;
          w1 = print (''Minifying '' @ str_nat numFiles @ '' files from '' @ hlslFolder a) w
      in if \<not> can_write e (outputFile a)
         then (print (''Failed to open output header: '' @ outputFile a) w1, Some (SysExit (- 1)))
         else
           (case minifyFiles e numFiles files
                   \<lparr>n = 0, directoryString = directoryHeader,
                    headerOutput = banner e a numFiles, printed = stdout w1\<rparr> of
              (m, Some x) \<Rightarrow>
                (\<lparr>stdout = printed m, fs = (fs w1)(outputFile a \<mapsto> headerOutput m)\<rparr>, Some x)
            | (m, None) \<Rightarrow>
                (\<lparr>stdout = printed m,
                  fs = (fs w1)(outputFile a \<mapsto> headerOutput m @ directoryString m @ ''}'' @ [NL])\<rparr>,
                 None)))"

section \<open>The script\<close>

definition generate :: "env \<Rightarrow> args \<Rightarrow> string list \<Rightarrow> string \<Rightarrow> world \<Rightarrow> world \<times> abort option" where
  "generate e a files entryPointFile w =
     (if packerEnabled a entryPointFile
      then (case binaryPacker e a entryPointFile w of
              (w1, Some x) \<Rightarrow> (w1, Some x)
            | (w1, None) \<Rightarrow> minify e a files w1)
      else minify e a files w)"

definition upToDateMessage :: "args \<Rightarrow> string" where
  "upToDateMessage a = ''Nothing to be done, output header file '' @ outputFile a @ '' up to date''"

definition main :: "env \<Rightarrow> world \<Rightarrow> world \<times> abort option" where
  "main e w =
     (if length (argv e) < 3 \<or> length (argv e) > 6
      then (w\<lparr>stdout := stdout w @ usage\<rparr>, Some (SysExit (- 1)))
      else
        (let a = parseArgs (argv e);
             files = glob e (hlslFolder a @ ''/*.*sl*'')
         in case scanFiles e (mainEntryPoint a) (outputModTime e a) files (False, []) of
              Inl x \<Rightarrow> (w, Some (Uncaught x))
            | Inr (rebuildNeeded, entryPointFile) \<Rightarrow>
                if \<not> rebuildNeeded
                then (print (upToDateMessage a) w, Some (SysExit 0))
                else generate e a files entryPointFile w))"

section \<open>Reading a literal back\<close>

text \<open>
  The script has no decoder; the one below is the reading a C++ compiler gives to the
  body of a string literal, cut down to the three escapes the script emits. It scans
  the literal once from the left: a backslash and the character behind it are one
  token. A bare double quote or line feed, a backslash at the end and any other escape
  are not part of such a body, and the result is \<open>None\<close>. \<open>escapeChar\<close> is the token
  each character of the text is written as.
\<close>

definition escapeChar :: "char \<Rightarrow> string" where
  "escapeChar c = (if c = BSL then [BSL, BSL] else if c = NL then [BSL, CHR ''n'']
                   else if c = DQ then [BSL, DQ] else [c])"

fun unescape :: "string \<Rightarrow> string option" where
  "unescape [] = Some []"
| "unescape [c] = (if c = BSL \<or> c = DQ \<or> c = NL then None else Some [c])"
| "unescape (c # d # cs) =
    (if c = BSL then
       (if d = BSL then map_option (Cons BSL) (unescape cs)
        else if d = CHR ''n'' then map_option (Cons NL) (unescape cs)
        else if d = DQ then map_option (Cons DQ) (unescape cs)
        else None)
     else if c = DQ \<or> c = NL then None
     else map_option (Cons c) (unescape (d # cs)))"


section \<open>The line form of the specification\<close>

text \<open>
  Written from the words of the specification, not from the script, to compare the two.
  Step 1 of its transform removes "any text from a double-slash marker to end of line"
  and leaves a commented line as an empty line: \<open>specCommentStripped\<close> keeps what stands
  before the first marker, and the line's terminator where it has one. Step 4 collapses
  "runs of non-terminator whitespace to a single space": \<open>specCollapse\<close> writes a space for
  the first blank of a run and drops the others. \<open>specLineForm\<close> is the
  comment-stripped, whitespace-collapsed form of a line.
\<close>

fun beforeMarker :: "string \<Rightarrow> string" where
  "beforeMarker [] = []"
| "beforeMarker (c # cs) =
     (if c = CHR ''/'' \<and> take 1 cs = ''/'' then [] else c # beforeMarker cs)"

definition specCommentStripped :: "string \<Rightarrow> string" where
  "specCommentStripped line =
     (if line \<noteq> [] \<and> last line = NL then beforeMarker (butlast line) @ [NL]
      else beforeMarker line)"

fun specCollapse :: "bool \<Rightarrow> string \<Rightarrow> string" where
  "specCollapse inRun [] = []"
| "specCollapse inRun (c # cs) =
     (if blank c then (if inRun then specCollapse True cs else CHR '' '' # specCollapse True cs)
      else c # specCollapse False cs)"

definition specLineForm :: "string \<Rightarrow> string" where
  "specLineForm line = specCollapse False (specCommentStripped line)"

section \<open>Sample runs\<close>

text \<open>
  Two command lines with an input folder and an output file only. In the first the
  folder has no shader file and the header does not exist yet; in the second the
  folder holds one file, and the header is missing as well.
\<close>

definition emptyFolderEnv :: env where
  "emptyFolderEnv =
     \<lparr>argv = [''minifyShadersFolder.py'', ''shaders'', ''out/Shaders.h''],
      glob = (\<lambda>p. []),
      st_mtime = (\<lambda>p. None),
      platform_system = ''Linux'',
      subprocess_run = (\<lambda>c. None),
      read_bytes = (\<lambda>p. None),
      readlines = (\<lambda>p. OpenFails),
      can_write = (\<lambda>p. True)\<rparr>"

definition oneFileEnv :: env where
  "oneFileEnv =
     \<lparr>argv = [''minifyShadersFolder.py'', ''in'', ''out/Shaders.h''],
      glob = (\<lambda>p. if p = ''in/*.*sl*'' then [''in/foo.hlsl''] else []),
      st_mtime = (\<lambda>p. if p = ''in/foo.hlsl'' then Some 5 else None),
      platform_system = ''Linux'',
      subprocess_run = (\<lambda>c. None),
      read_bytes = (\<lambda>p. None),
      readlines = (\<lambda>p. if p = ''in/foo.hlsl''
                        then Content [''// comment'' @ [NL], ''float x = 1.0;'' @ [NL]]
                        else OpenFails),
      can_write = (\<lambda>p. True)\<rparr>"

definition emptyWorld :: world where
  "emptyWorld = \<lparr>stdout = [], fs = Map.empty\<rparr>"

text \<open>
  A command line with a compiler; two of the three files found have the default entry
  point name in their path. The compiler fails when it is run on the last of them and
  cannot be started on any other command.
\<close>

definition entryEnv :: env where
  "entryEnv =
     \<lparr>argv = [''minifyShadersFolder.py'', ''in'', ''out/Shaders.h'', ''bin/slangc''],
      glob = (\<lambda>p. if p = ''in/*.*sl*''
                   then [''in/MainEntryPoints.slang'', ''in/foo.hlsl'', ''in/OldMainEntryPoints2.slang'']
                   else []),
      st_mtime = (\<lambda>p. if p = ''out/Shaders.h'' then None else Some 5),
      platform_system = ''Linux'',
      subprocess_run = (\<lambda>c. if c = [''bin/slangc'', ''in/OldMainEntryPoints2.slang'', ''-target'',
                                      ''spirv'', ''-o'', ''out/MainEntryPoints.spv'']
                             then Some (1, ''syntax error'') else None),
      read_bytes = (\<lambda>p. None),
      readlines = (\<lambda>p. OpenFails),
      can_write = (\<lambda>p. True)\<rparr>"

section \<open>Notions used in the statements\<close>

text \<open>
  A file is readable when it opens and decodes; \<open>linesOf\<close> is what \<^verbatim>\<open>readlines\<close> gives
  for it. \<open>fileSection\<close> is the text the loop of line 145 writes to the header for one
  file, \<open>fileMessages\<close> what it prints for the file at position \<open>i\<close>, and \<open>tableRow\<close>
  what it appends to the directory string there.
\<close>

definition readable :: "env \<Rightarrow> string \<Rightarrow> bool" where
  "readable e f = (case readlines e f of Content ls \<Rightarrow> True | OpenFails \<Rightarrow> False | ReadFails \<Rightarrow> False)"

definition linesOf :: "env \<Rightarrow> string \<Rightarrow> string list" where
  "linesOf e f = (case readlines e f of Content ls \<Rightarrow> ls | OpenFails \<Rightarrow> [] | ReadFails \<Rightarrow> [])"

definition fileSection :: "string \<Rightarrow> string list \<Rightarrow> string" where
  "fileSection hlslFile lines =
     [NL, TAB] @ ''// Minified string created from '' @ hlslFile @ [NL]
     @ [TAB] @ ''static const std::string '' @ stringName hlslFile @ '' = '' @ [NL]
     @ stringLiteral hlslFile lines"

definition fileMessages :: "nat \<Rightarrow> nat \<times> string \<Rightarrow> string list" where
  "fileMessages numFiles = (\<lambda>(i, hlslFile).
     ([TAB] @ '' Minifying file '' @ str_nat (i + 1) @ '' of '' @ str_nat numFiles @ '': '' @ hlslFile)
     # (if stringName hlslFile = directorySymbolName then [conflictMessage hlslFile] else []))"

definition tableRow :: "nat \<Rightarrow> nat \<times> string \<Rightarrow> string" where
  "tableRow numFiles = (\<lambda>(i, hlslFile).
     directoryEntry hlslFile
     @ (if i + 1 = numFiles then [NL, TAB] @ ''};'' @ [NL] else '','' @ [NL]))"

text \<open>A folder in which one file is named like the directory map.\<close>

definition clashEnv :: env where
  "clashEnv =
     \<lparr>argv = [''minifyShadersFolder.py'', ''in'', ''out/Shaders.h''],
      glob = (\<lambda>p. if p = ''in/*.*sl*'' then [''in/foo.hlsl'', ''in/Directory.hlsl''] else []),
      st_mtime = (\<lambda>p. if p = ''out/Shaders.h'' then None else Some 5),
      platform_system = ''Linux'',
      subprocess_run = (\<lambda>c. None),
      read_bytes = (\<lambda>p. None),
      readlines = (\<lambda>p. if p = ''in/foo.hlsl'' then Content [''float x;'' @ [NL]]
                        else if p = ''in/Directory.hlsl'' then Content [''float y;'' @ [NL]]
                        else OpenFails),
      can_write = (\<lambda>p. True)\<rparr>"

section \<open>Round trip of the escaping\<close>

lemma blank_simps: "\<not> blank BSL" "\<not> blank NL" "\<not> blank DQ" "\<not> blank (CHR ''n'')" "blank (CHR '' '')"
  by (simp_all add: blank_def isspace_def)

lemma dropWhile_blank_concat:
  assumes same: "\<And>c. blank c \<Longrightarrow> f c = [c]"
      and keep: "\<And>c. \<not> blank c \<Longrightarrow> f c \<noteq> [] \<and> \<not> blank (hd (f c))"
  shows "dropWhile blank (concat (map f cs)) = concat (map f (dropWhile blank cs))"
proof (induction cs)
  case Nil
  show ?case by simp
next
  case (Cons c cs)
  show ?case
  proof (cases "blank c")
    case True
    with Cons same show ?thesis by simp
  next
    case False
    from keep [OF False] obtain d ds where d: "f c = d # ds" "\<not> blank d"
      by (cases "f c") auto
    with False show ?thesis by simp
  qed
qed

lemma removeExtraWhitespace_prefix:
  "\<forall>d \<in> set xs. \<not> blank d \<Longrightarrow> removeExtraWhitespace (xs @ ys) = xs @ removeExtraWhitespace ys"
  by (induction xs) simp_all

lemma removeExtraWhitespace_concat:
  assumes same: "\<And>c. blank c \<Longrightarrow> f c = [c]"
      and keep: "\<And>c. \<not> blank c \<Longrightarrow> f c \<noteq> [] \<and> (\<forall>d \<in> set (f c). \<not> blank d)"
  shows "removeExtraWhitespace (concat (map f s)) = concat (map f (removeExtraWhitespace s))"
proof (induction s rule: removeExtraWhitespace.induct)
  case 1
  show ?case by simp
next
  case (2 c cs)
  show ?case
  proof (cases "blank c")
    case True
    have hd: "\<And>c. \<not> blank c \<Longrightarrow> f c \<noteq> [] \<and> \<not> blank (hd (f c))"
      using keep by (metis hd_in_set)
    have "removeExtraWhitespace (concat (map f (c # cs)))
          = CHR '' '' # removeExtraWhitespace (dropWhile blank (concat (map f cs)))"
      using True same by simp
    also have "\<dots> = CHR '' '' # removeExtraWhitespace (concat (map f (dropWhile blank cs)))"
      using dropWhile_blank_concat [of f cs, OF same hd] by simp
    also have "\<dots> = CHR '' '' # concat (map f (removeExtraWhitespace (dropWhile blank cs)))"
      using 2(1) [OF True] by simp
    also have "\<dots> = concat (map f (removeExtraWhitespace (c # cs)))"
      using True same [of "CHR '' ''"] blank_simps by simp
    finally show ?thesis .
  next
    case False
    have "removeExtraWhitespace (concat (map f (c # cs)))
          = f c @ removeExtraWhitespace (concat (map f cs))"
      using keep [OF False] by (simp add: removeExtraWhitespace_prefix)
    with 2(2) [OF False] False show ?thesis by simp
  qed
qed

lemma escape_steps:
  "escapeNewlines (doubleBackslashes s)
   = concat (map (\<lambda>c. if c = BSL then [BSL, BSL] else if c = NL then [BSL, CHR ''n''] else [c]) s)"
  by (induction s) (simp_all add: escapeNewlines_def doubleBackslashes_def)

lemma escapeQuotes_escapeChar:
  "escapeQuotes (concat (map (\<lambda>c. if c = BSL then [BSL, BSL] else if c = NL then [BSL, CHR ''n''] else [c]) s))
   = concat (map escapeChar s)"
  by (induction s) (simp_all add: escapeQuotes_def escapeChar_def)

lemma minifyLine_escape:
  "minifyLine line = concat (map escapeChar (removeExtraWhitespace (removeComments line)))"
proof -
  let ?g = "\<lambda>c. if c = BSL then [BSL, BSL] else if c = NL then [BSL, CHR ''n''] else [c]"
  have "removeExtraWhitespace (concat (map ?g (removeComments line)))
        = concat (map ?g (removeExtraWhitespace (removeComments line)))"
    by (rule removeExtraWhitespace_concat) (auto simp: blank_simps)
  then show ?thesis
    by (simp add: minifyLine_def escape_steps escapeQuotes_escapeChar)
qed

lemma unescape_plain:
  "c \<noteq> BSL \<Longrightarrow> c \<noteq> DQ \<Longrightarrow> c \<noteq> NL \<Longrightarrow> unescape (c # r) = map_option (Cons c) (unescape r)"
  by (cases r) simp_all

lemma unescape_escape: "unescape (concat (map escapeChar s) @ t) = map_option ((@) s) (unescape t)"
proof (induction s)
  case Nil
  show ?case by (simp add: option.map_ident)
next
  case (Cons c s)
  show ?case
  proof (cases "c = BSL \<or> c = NL \<or> c = DQ")
    case True
    with Cons show ?thesis
      by (auto simp: escapeChar_def option.map_comp comp_def)
  next
    case False
    then have "unescape (concat (map escapeChar (c # s)) @ t)
               = map_option (Cons c) (unescape (concat (map escapeChar s) @ t))"
      by (simp add: escapeChar_def unescape_plain)
    with Cons show ?thesis
      by (simp add: option.map_comp comp_def)
  qed
qed

text \<open>
  Decoding the literal of a line gives back what the script's own comment removal and
  collapsing of blanks leave of the line.
\<close>

lemma minifyLine_decodes:
  "unescape (minifyLine line) = Some (removeExtraWhitespace (removeComments line))"
  using unescape_escape [of "removeExtraWhitespace (removeComments line)" "[]"]
  by (simp add: minifyLine_escape)

section \<open>Freshness gate and entry point\<close>

lemma startswith_iff: "startswith s p \<longleftrightarrow> (\<exists>post. s = p @ post)"
  by (induction s p rule: startswith.induct) auto

lemma contains_iff: "contains needle hay \<longleftrightarrow> (\<exists>pre post. hay = pre @ needle @ post)"
proof (induction hay)
  case Nil
  show ?case by simp
next
  case (Cons c cs)
  show ?case
  proof
    assume "contains needle (c # cs)"
    then consider "startswith (c # cs) needle" | "contains needle cs" by auto
    then show "\<exists>pre post. c # cs = pre @ needle @ post"
    proof cases
      case 1
      then obtain post where "c # cs = needle @ post" by (auto simp: startswith_iff)
      then have "c # cs = [] @ needle @ post" by simp
      then show ?thesis by blast
    next
      case 2
      with Cons obtain pre post where "cs = pre @ needle @ post" by auto
      then have "c # cs = (c # pre) @ needle @ post" by simp
      then show ?thesis by blast
    qed
  next
    assume "\<exists>pre post. c # cs = pre @ needle @ post"
    then obtain pre post where eq: "c # cs = pre @ needle @ post" by auto
    show "contains needle (c # cs)"
    proof (cases pre)
      case Nil
      with eq have "startswith (c # cs) needle" by (auto simp: startswith_iff)
      then show ?thesis by simp
    next
      case (Cons d pre')
      with eq have "cs = pre' @ needle @ post" by simp
      with Cons.IH have "contains needle cs" by blast
      then show ?thesis by simp
    qed
  qed
qed

lemma scanFiles_result:
  "list_all (\<lambda>f. st_mtime e f \<noteq> None) files \<Longrightarrow>
   scanFiles e mep t files (rb, ep) =
     Inr (rb \<or> (\<exists>f \<in> set files. \<exists>m. st_mtime e f = Some m \<and> m > t),
          if filter (contains mep) files = [] then ep else last (filter (contains mep) files))"
proof (induction files arbitrary: rb ep)
  case Nil
  show ?case by simp
next
  case (Cons f files)
  from Cons.prems obtain m where m: "st_mtime e f = Some m" and rest: "list_all (\<lambda>f. st_mtime e f \<noteq> None) files"
    by auto
  show ?case
    using m Cons.IH [OF rest] by auto
qed

lemma minifyFiles_no_exit0: "snd (minifyFiles e k files m) \<noteq> Some (SysExit 0)"
  by (induction files arbitrary: m) (simp_all add: Let_def split: opened.split)

lemma binaryPacker_no_exit0: "snd (binaryPacker e a ep w) \<noteq> Some (SysExit 0)"
  by (simp add: binaryPacker_def Let_def split: option.split prod.split sum.split)

lemma minify_no_exit0: "snd (minify e a files w) \<noteq> Some (SysExit 0)"
proof (cases "can_write e (outputFile a)")
  case False
  then show ?thesis by (simp add: minify_def Let_def)
next
  case True
  obtain m r where mr: "minifyFiles e (length files) files
      \<lparr>n = 0, directoryString = directoryHeader,
       headerOutput = banner e a (length files),
       printed = stdout (print (''Minifying '' @ str_nat (length files) @ '' files from '' @ hlslFolder a) w)\<rparr>
      = (m, r)"
    by (cases "minifyFiles e (length files) files
      \<lparr>n = 0, directoryString = directoryHeader,
       headerOutput = banner e a (length files),
       printed = stdout (print (''Minifying '' @ str_nat (length files) @ '' files from '' @ hlslFolder a) w)\<rparr>")
  have "r \<noteq> Some (SysExit 0)"
    using minifyFiles_no_exit0 [of e "length files" files] mr by (metis snd_conv)
  with True mr show ?thesis
    by (cases r) (simp_all add: minify_def Let_def)
qed

lemma generate_no_exit0: "snd (generate e a files ep w) \<noteq> Some (SysExit 0)"
proof (cases "packerEnabled a ep")
  case False
  then show ?thesis by (simp add: generate_def minify_no_exit0)
next
  case True
  obtain w1 r where b: "binaryPacker e a ep w = (w1, r)"
    by (cases "binaryPacker e a ep w")
  with binaryPacker_no_exit0 [of e a ep w] have "r \<noteq> Some (SysExit 0)" by simp
  with True b show ?thesis
    by (cases r) (simp_all add: generate_def minify_no_exit0)
qed

text \<open>
  C1, as amended. For a command line of three to six entries and input files whose
  modification times can all be read, the script regenerates exactly when some input
  file's modification time is strictly greater than that of the output, a missing
  output counting as time 0; otherwise it prints the up-to-date message and exits
  with status 0, and status 0 is reached by \<^verbatim>\<open>sys.exit\<close> in no other way.
\<close>

theorem rebuild_iff_input_newer:
  assumes argc: "3 \<le> length (argv e)" "length (argv e) \<le> 6"
      and a: "a = parseArgs (argv e)"
      and files: "files = glob e (hlslFolder a @ ''/*.*sl*'')"
      and t: "t = (case st_mtime e (outputFile a) of None \<Rightarrow> 0 | Some u \<Rightarrow> u)"
      and stat: "list_all (\<lambda>f. st_mtime e f \<noteq> None) files"
  shows "(if \<exists>f \<in> set files. \<exists>m. st_mtime e f = Some m \<and> m > t
          then \<exists>entryPointFile. main e w = generate e a files entryPointFile w
          else main e w = (print (upToDateMessage a) w, Some (SysExit 0)))
         \<and> (snd (main e w) = Some (SysExit 0)
              \<longleftrightarrow> \<not> (\<exists>f \<in> set files. \<exists>m. st_mtime e f = Some m \<and> m > t))"
proof -
  define newer where "newer \<longleftrightarrow> (\<exists>f \<in> set files. \<exists>m. st_mtime e f = Some m \<and> m > t)"
  define ep where "ep = (if filter (contains (mainEntryPoint a)) files = [] then []
             else last (filter (contains (mainEntryPoint a)) files))"
  have "outputModTime e a = t"
    using t by (simp add: outputModTime_def)
  then have scan: "scanFiles e (mainEntryPoint a) (outputModTime e a) files (False, []) = Inr (newer, ep)"
    using scanFiles_result [OF stat, of "mainEntryPoint a" t False "[]"]
    by (simp add: newer_def ep_def)
  have "\<not> (length (argv e) < 3 \<or> length (argv e) > 6)"
    using argc by simp
  then have m: "main e w = (if \<not> newer then (print (upToDateMessage a) w, Some (SysExit 0))
                       else generate e a files ep w)"
    unfolding main_def Let_def a [symmetric] files [symmetric] scan by simp
  show ?thesis
  proof (cases newer)
    case True
    with m have g: "main e w = generate e a files ep w" by simp
    then have "snd (main e w) \<noteq> Some (SysExit 0)"
      using generate_no_exit0 [of e a files ep w] by simp
    with g True show ?thesis unfolding newer_def [symmetric] by auto
  next
    case False
    with m show ?thesis unfolding newer_def [symmetric] by simp
  qed
qed

theorem rebuild_iff_input_newer_witness:
  "snd (main oneFileEnv emptyWorld) \<noteq> Some (SysExit 0)
   \<and> main emptyFolderEnv emptyWorld
       = (print ''Nothing to be done, output header file out/Shaders.h up to date'' emptyWorld,
          Some (SysExit 0))"
proof -
  have 1: "snd (main oneFileEnv emptyWorld) \<noteq> Some (SysExit 0)"
    using rebuild_iff_input_newer [of oneFileEnv "parseArgs (argv oneFileEnv)" "[''in/foo.hlsl'']" 0 emptyWorld]
    by (simp add: oneFileEnv_def parseArgs_def)
  have 2: "main emptyFolderEnv emptyWorld
       = (print ''Nothing to be done, output header file out/Shaders.h up to date'' emptyWorld,
          Some (SysExit 0))"
    using rebuild_iff_input_newer [of emptyFolderEnv "parseArgs (argv emptyFolderEnv)" "[]" 0 emptyWorld]
    by (simp add: emptyFolderEnv_def parseArgs_def upToDateMessage_def)
  from 1 2 show ?thesis by simp
qed

text \<open>
  The claim as stated also lets a missing output force the rebuild. With no input file
  there is nothing newer than time 0: the header is missing, and the script reports it
  up to date and exits with status 0.
\<close>

theorem missing_output_no_rebuild:
  "st_mtime emptyFolderEnv (outputFile (parseArgs (argv emptyFolderEnv))) = None
   \<and> main emptyFolderEnv emptyWorld
       = (print (upToDateMessage (parseArgs (argv emptyFolderEnv))) emptyWorld, Some (SysExit 0))"
  by (simp add: emptyFolderEnv_def parseArgs_def main_def outputModTime_def)

section \<open>Command line and binary packer\<close>

text \<open>
  The compiler path is taken from the command line only when it has exactly four
  entries; with any other count the packer stage is skipped. The target is never taken
  from the command line, and the test of line 67 holds for every string, so the
  target is always the one of the platform.
\<close>

lemma parseArgs_slangc: "length av \<noteq> 4 \<Longrightarrow> slangc (parseArgs av) = []"
  by (simp add: parseArgs_def)

lemma packer_needs_four: "length av \<noteq> 4 \<Longrightarrow> \<not> packerEnabled (parseArgs av) ep"
  by (simp add: parseArgs_def packerEnabled_def)

lemma generate_without_packer:
  "length (argv e) \<noteq> 4 \<Longrightarrow>
   generate e (parseArgs (argv e)) files ep w = minify e (parseArgs (argv e)) files w"
  by (simp add: generate_def packer_needs_four)

lemma parseArgs_target: "target (parseArgs av) = []"
  by (simp add: parseArgs_def)

lemma chooseTarget_platform: "chooseTarget tgt sys = platformTarget sys"
  by (auto simp: chooseTarget_def)

text \<open>
  C8. A compiler path given together with an entry point name (a command line of five
  entries) is not read: \<^verbatim>\<open>slangc\<close> stays empty, the packer stage is skipped although
  an entry point file was found, and the run goes straight to the minifier.
\<close>

theorem compiler_ignored_with_entry_point_argument:
  "slangc (parseArgs [''minifyShadersFolder.py'', ''in'', ''out/Shaders.h'', ''bin/slangc'', ''Main'']) = []
   \<and> mainEntryPoint (parseArgs [''minifyShadersFolder.py'', ''in'', ''out/Shaders.h'', ''bin/slangc'', ''Main'']) = ''Main''
   \<and> packerEnabled (parseArgs [''minifyShadersFolder.py'', ''in'', ''out/Shaders.h'', ''bin/slangc'', ''Main''])
        ''in/Main.slang'' = False
   \<and> generate e (parseArgs [''minifyShadersFolder.py'', ''in'', ''out/Shaders.h'', ''bin/slangc'', ''Main''])
        files ''in/Main.slang'' w
       = minify e (parseArgs [''minifyShadersFolder.py'', ''in'', ''out/Shaders.h'', ''bin/slangc'', ''Main''])
        files w"
  by (simp add: parseArgs_def packerEnabled_def generate_def)

text \<open>
  C9. A target given as the fifth argument (a command line of six entries) is
  assigned to \<^verbatim>\<open>mainEntryPoint\<close>; \<^verbatim>\<open>target\<close> and \<^verbatim>\<open>slangc\<close> stay empty. And a target
  that did reach line 67 would still be replaced by the platform's: \<^verbatim>\<open>spirv\<close> on
  Darwin becomes \<^verbatim>\<open>metal\<close>.
\<close>

theorem target_argument_ignored:
  "target (parseArgs [''minifyShadersFolder.py'', ''in'', ''out/Shaders.h'', ''bin/slangc'', ''Main'', ''spirv'']) = []
   \<and> mainEntryPoint (parseArgs [''minifyShadersFolder.py'', ''in'', ''out/Shaders.h'', ''bin/slangc'', ''Main'', ''spirv'']) = ''spirv''
   \<and> slangc (parseArgs [''minifyShadersFolder.py'', ''in'', ''out/Shaders.h'', ''bin/slangc'', ''Main'', ''spirv'']) = []
   \<and> chooseTarget ''spirv'' ''Darwin'' = Some ''metal''"
  by (simp add: parseArgs_def chooseTarget_def platformTarget_def)

theorem target_argument_ignored_witness:
  "chooseTarget ''spirv'' ''Darwin'' \<noteq> Some ''spirv''"
  using target_argument_ignored by simp

text \<open>
  The word loop. On a binary whose length is a multiple of four it writes one entry
  for each group of four bytes, the bytes of a group in reversed order, a comma behind
  every entry but the last and a line feed behind every eighth. On any other length
  the read of the last group leaves the buffer.
\<close>

lemma packWords_ok:
  "list_all (\<lambda>i. i * 4 + 3 < length data) xs \<Longrightarrow>
   packWords data numWords xs h =
     Inr (h @ concat (map (\<lambda>i. ''0x'' @ hexByte (data ! (i * 4 + 3)) @ hexByte (data ! (i * 4 + 2))
                                  @ hexByte (data ! (i * 4 + 1)) @ hexByte (data ! (i * 4))
                                  @ (if i < numWords - 1 then '', '' else [])
                                  @ (if i mod 8 = 7 then [NL] else [])) xs))"
  by (induction xs arbitrary: h) (simp_all add: Let_def)

lemma packWords_raises:
  "i < numWords \<Longrightarrow> length data \<le> (numWords - 1) * 4 + 3 \<Longrightarrow>
   packWords data numWords [i..<numWords] h = Inl IndexError"
proof (induction k \<equiv> "numWords - i" arbitrary: i h)
  case 0
  then show ?case by simp
next
  case (Suc k)
  have upt: "[i..<numWords] = i # [Suc i..<numWords]"
    using Suc.prems(1) by (simp add: upt_conv_Cons)
  show ?case
  proof (cases "i * 4 + 3 < length data")
    case False
    then show ?thesis by (simp add: upt)
  next
    case True
    with Suc.prems have "Suc i < numWords" by (cases "Suc i = numWords") auto
    moreover from Suc.hyps(2) have "k = numWords - Suc i" by simp
    ultimately show ?thesis
      using Suc.hyps(1) [of "Suc i"] Suc.prems(2) True by (simp add: upt Let_def)
  qed
qed

lemma packBinary_unaligned:
  "length data mod 4 \<noteq> 0 \<Longrightarrow> packBinary vn data = Inl IndexError"
proof -
  assume "length data mod 4 \<noteq> 0"
  then have "0 < (length data + 3) div 4" and "length data \<le> ((length data + 3) div 4 - 1) * 4 + 3"
    by presburger+
  then show ?thesis
    using packWords_raises [of 0 "(length data + 3) div 4" data]
    by (simp add: packBinary_def Let_def)
qed

lemma packBinary_aligned:
  "length data mod 4 = 0 \<Longrightarrow>
   packBinary vn data =
     Inr (''static const array<unsigned int, '' @ str_nat (length data div 4) @ ''> '' @ vn @ '' = {'' @ [NL]
          @ concat (map (\<lambda>i. ''0x'' @ hexByte (data ! (i * 4 + 3)) @ hexByte (data ! (i * 4 + 2))
                                  @ hexByte (data ! (i * 4 + 1)) @ hexByte (data ! (i * 4))
                                  @ (if i < length data div 4 - 1 then '', '' else [])
                                  @ (if i mod 8 = 7 then [NL] else [])) [0..<length data div 4])
          @ ''};'' @ [NL])"
proof -
  assume al: "length data mod 4 = 0"
  then have w: "(length data + 3) div 4 = length data div 4" by presburger
  have "list_all (\<lambda>i. i * 4 + 3 < length data) [0..<length data div 4]"
    using al by (auto simp: list_all_iff)
  from packWords_ok [OF this] show ?thesis
    by (simp add: packBinary_def Let_def w)
qed

text \<open>
  C5. On a compiled output of five bytes (Metal source text can have any length) the
  packer announces two words and raises \<^verbatim>\<open>IndexError\<close> at the second, so that no
  array is written.
\<close>

theorem packer_raises_on_partial_word:
  "packBinary ''g_sMainEntryPointsmetal'' [0x2F, 0x2F, 0x0A, 0x61, 0x62] = Inl IndexError"
  by (simp add: packBinary_def upt_conv_Cons)

section \<open>Comment stripping\<close>

text \<open>
  C4. A last line that has no terminator keeps its comment: the pattern of line 182
  needs the line feed, so nothing matches, and the comment text is carried into the
  literal.
\<close>

theorem last_line_comment_kept:
  "removeComments ''x = 1; // note'' = ''x = 1; // note''
   \<and> minifyLine ''x = 1; // note'' = ''x = 1; // note''"
  by (simp add: minifyLine_def doubleBackslashes_def escapeNewlines_def escapeQuotes_def blank_def isspace_def)

text \<open>
  On a terminated line the text from the first marker up to the line feed goes and the
  line feed stays; a line without marker is left as it is.
\<close>

lemma take1_slash: "take (Suc 0) cs = ''/'' \<longleftrightarrow> startswith cs ''/''"
  by (cases cs) auto

lemma removeComments_no_marker:
  "\<not> contains ''//'' s \<Longrightarrow> removeComments s = s"
  by (induction s rule: removeComments.induct) (auto simp: take1_slash)

lemma removeComments_at_marker:
  "NL \<notin> set c \<Longrightarrow> removeComments (''//'' @ c @ [NL] @ r) = NL # removeComments r"
proof -
  assume c: "NL \<notin> set c"
  then have "dropWhile (\<lambda>d. d \<noteq> NL) (c @ NL # r) = NL # r"
    by (induction c) auto
  then show ?thesis by simp
qed

lemma removeComments_terminated:
  assumes "\<not> contains ''//'' (pre @ ''/'')" and "NL \<notin> set c"
  shows "removeComments (pre @ ''//'' @ c @ [NL]) = pre @ [NL]"
  using assms(1)
proof (induction pre)
  case Nil
  show ?case using removeComments_at_marker [OF assms(2), of "[]"] by simp
next
  case (Cons a pre)
  from Cons.prems have nc: "\<not> contains ''//'' (pre @ ''/'')" by simp
  from Cons.prems have "\<not> (a = CHR ''/'' \<and> take (Suc 0) (pre @ ''//'' @ c @ [NL]) = ''/'')"
    by (cases pre) auto
  then have "removeComments (a # pre @ ''//'' @ c @ [NL]) = a # removeComments (pre @ ''//'' @ c @ [NL])"
    by auto
  with Cons.IH [OF nc] show ?case by simp
qed

section \<open>Minifier: header and directory table\<close>

text \<open>
  With a writable header and readable input files the minifier runs to its end; what
  it prints and writes is the concatenation, in discovery order, of what each file
  contributes.
\<close>

lemma minifyFiles_readable:
  "list_all (readable e) rest \<Longrightarrow>
   minifyFiles e numFiles rest m =
     (\<lparr>n = n m + length rest,
       directoryString = directoryString m @ concat (map (tableRow numFiles) (enumerate (n m) rest)),
       headerOutput = headerOutput m @ concat (map (\<lambda>f. fileSection f (linesOf e f)) rest),
       printed = printed m @ concat (map (fileMessages numFiles) (enumerate (n m) rest))\<rparr>, None)"
proof (induction rest arbitrary: m)
  case Nil
  show ?case by simp
next
  case (Cons f rest)
  from Cons.prems have rf: "readable e f" and rest: "list_all (readable e) rest"
    by simp_all
  from rf obtain ls where ls: "readlines e f = Content ls"
    by (cases "readlines e f") (simp_all add: readable_def)
  let ?m1 = "m\<lparr>printed := printed m @
                 [[TAB] @ '' Minifying file '' @ str_nat (n m + 1) @ '' of '' @ str_nat numFiles
                  @ '': '' @ f]\<rparr>"
  have step: "minifyFiles e numFiles (f # rest) m = minifyFiles e numFiles rest (minifyFile numFiles f ls ?m1)"
    using ls by (simp add: Let_def)
  have l: "linesOf e f = ls" using ls by (simp add: linesOf_def)
  show ?case
    unfolding step Cons.IH [OF rest]
    by (simp add: minifyFile_def Let_def l fileSection_def fileMessages_def tableRow_def)
qed

lemma table_rows:
  "xs \<noteq> [] \<Longrightarrow> k + length xs = numFiles \<Longrightarrow>
   concat (map (tableRow numFiles) (enumerate k xs))
   = concat (map (\<lambda>f. directoryEntry f @ '','' @ [NL]) (butlast xs))
     @ directoryEntry (last xs) @ [NL, TAB] @ ''};'' @ [NL]"
proof (induction xs arbitrary: k)
  case Nil
  then show ?case by simp
next
  case (Cons x xs)
  show ?case
  proof (cases "xs = []")
    case True
    with Cons.prems show ?thesis by (simp add: tableRow_def)
  next
    case False
    with Cons.prems have "k + 1 \<noteq> numFiles" and "Suc k + length xs = numFiles" by auto
    with Cons.IH [OF False, of "Suc k"] False show ?thesis
      by (simp add: tableRow_def)
  qed
qed

lemma minify_readable:
  assumes "can_write e (outputFile a)" and "list_all (readable e) files"
  shows "minify e a files w =
    (\<lparr>stdout = stdout w @ [''Minifying '' @ str_nat (length files) @ '' files from '' @ hlslFolder a]
               @ concat (map (fileMessages (length files)) (enumerate 0 files)),
      fs = (fs w)(outputFile a \<mapsto>
             banner e a (length files)
             @ concat (map (\<lambda>f. fileSection f (linesOf e f)) files)
             @ directoryHeader
             @ concat (map (tableRow (length files)) (enumerate 0 files))
             @ ''}'' @ [NL])\<rparr>, None)"
  using assms(1) minifyFiles_readable [OF assms(2), of "length files"]
  by (simp add: minify_def Let_def print_def)

text \<open>
  C6. For a non-empty list of readable files and a writable header, the minifier ends
  normally and the header closes with the directory table: one entry for each file,
  in discovery order, every entry but the last followed by a comma and the last by
  the closing brace. An entry pairs the file's base name with the name of its string
  constant, \<^verbatim>\<open>g_s\<close> followed by the base name without its extension, which is the
  name the constant is declared under in the file's section.
\<close>

theorem directory_table_complete:
  assumes "files \<noteq> []" and "can_write e (outputFile a)" and "list_all (readable e) files"
  shows "\<exists>out. minify e a files w =
           (\<lparr>stdout = out,
             fs = (fs w)(outputFile a \<mapsto>
               banner e a (length files)
               @ concat (map (\<lambda>f. fileSection f (linesOf e f)) files)
               @ directoryHeader
               @ concat (map (\<lambda>f. directoryEntry f @ '','' @ [NL]) (butlast files))
               @ directoryEntry (last files) @ [NL, TAB] @ ''};'' @ [NL]
               @ ''}'' @ [NL])\<rparr>, None)
         \<and> directoryEntry f =
             [TAB, TAB] @ ''{ '' @ [DQ] @ basename f @ [DQ] @ '', '' @ stringName f @ '' }''
         \<and> stringName f = ''g_s'' @ fst (splitext (basename f))"
  using minify_readable [OF assms(2,3), of w] table_rows [OF assms(1), of 0 "length files"]
  by (simp add: directoryEntry_def stringName_def)

theorem directory_table_complete_witness:
  "snd (minify oneFileEnv (parseArgs (argv oneFileEnv)) [''in/foo.hlsl''] emptyWorld) = None
   \<and> directoryEntry ''in/foo.hlsl'' = [TAB, TAB] @ ''{ '' @ [DQ] @ ''foo.hlsl'' @ [DQ] @ '', g_sfoo }''"
proof -
  have a: "can_write oneFileEnv (outputFile (parseArgs (argv oneFileEnv)))"
    by (simp add: oneFileEnv_def)
  have b: "list_all (readable oneFileEnv) [''in/foo.hlsl'']"
    by (simp add: oneFileEnv_def readable_def)
  have c: "[''in/foo.hlsl''] \<noteq> []" by simp
  from directory_table_complete [OF c a b, of emptyWorld "''in/foo.hlsl''"]
  obtain out where
    m: "snd (minify oneFileEnv (parseArgs (argv oneFileEnv)) [''in/foo.hlsl''] emptyWorld) = None"
    and d: "directoryEntry ''in/foo.hlsl'' =
             [TAB, TAB] @ ''{ '' @ [DQ] @ basename ''in/foo.hlsl'' @ [DQ] @ '', '' @ stringName ''in/foo.hlsl'' @ '' }''"
    and n: "stringName ''in/foo.hlsl'' = ''g_s'' @ fst (splitext (basename ''in/foo.hlsl''))"
    by auto
  have "basename ''in/foo.hlsl'' = ''foo.hlsl''" by (simp add: basename_def)
  moreover have "fst (splitext ''foo.hlsl'') = ''foo''" by (simp add: splitext_def basename_def)
  ultimately show ?thesis using m d n by simp
qed

lemma conflict_printed:
  assumes "f \<in> set files" and "stringName f = directorySymbolName"
  shows "conflictMessage f \<in> set (concat (map (fileMessages numFiles) (enumerate k files)))"
proof -
  from assms(1) obtain i where i: "i < length files" "files ! i = f"
    by (auto simp: in_set_conv_nth)
  then have "(k + i, f) \<in> set (enumerate k files)"
    by (simp add: in_set_enumerate_eq)
  moreover have "conflictMessage f \<in> set (fileMessages numFiles (k + i, f))"
    using assms(2) by (simp add: fileMessages_def)
  ultimately show ?thesis by auto
qed

text \<open>
  C7. When the name derived for a file is that of the directory map, the message
  naming the file's base name and \<^verbatim>\<open>g_sDirectory\<close> is printed, and nothing else
  changes: the minifier ends normally, and the header it writes holds the constant
  declared under the clashing name.
\<close>

theorem name_conflict_reported_not_fatal:
  assumes "can_write e (outputFile a)" and "list_all (readable e) files"
      and "f \<in> set files" and "stringName f = directorySymbolName"
  shows "snd (minify e a files w) = None
         \<and> conflictMessage f \<in> set (stdout (fst (minify e a files w)))
         \<and> conflictMessage f = ''Invalid HLSL filename '' @ basename f
               @ '' name conflict with built-in directory map named g_sDirectory''
         \<and> (\<exists>pre post. fs (fst (minify e a files w)) (outputFile a) =
               Some (pre @ [TAB] @ ''static const std::string g_sDirectory = '' @ [NL]
                     @ stringLiteral f (linesOf e f) @ post))"
proof -
  note m = minify_readable [OF assms(1,2), of w]
  have 1: "snd (minify e a files w) = None" by (simp add: m)
  have 2: "conflictMessage f \<in> set (stdout (fst (minify e a files w)))"
    using conflict_printed [OF assms(3,4), of "length files" 0] by (simp add: m)
  have 3: "conflictMessage f = ''Invalid HLSL filename '' @ basename f
               @ '' name conflict with built-in directory map named g_sDirectory''"
    by (simp add: conflictMessage_def directorySymbolName_def)
  from assms(3) obtain xs ys where files: "files = xs @ f # ys"
    by (auto simp: in_set_conv_decomp)
  have sec: "fileSection f (linesOf e f) =
      ([NL, TAB] @ ''// Minified string created from '' @ f @ [NL])
      @ [TAB] @ ''static const std::string g_sDirectory = '' @ [NL] @ stringLiteral f (linesOf e f)"
    using assms(4) by (simp add: fileSection_def directorySymbolName_def)
  have "fs (fst (minify e a files w)) (outputFile a) =
      Some ((banner e a (length files) @ concat (map (\<lambda>f. fileSection f (linesOf e f)) xs)
             @ [NL, TAB] @ ''// Minified string created from '' @ f @ [NL])
            @ [TAB] @ ''static const std::string g_sDirectory = '' @ [NL] @ stringLiteral f (linesOf e f)
            @ (concat (map (\<lambda>f. fileSection f (linesOf e f)) ys) @ directoryHeader
               @ concat (map (tableRow (length files)) (enumerate 0 files)) @ ''}'' @ [NL]))"
    unfolding m by (simp add: files sec)
  then have 4: "\<exists>pre post. fs (fst (minify e a files w)) (outputFile a) =
               Some (pre @ [TAB] @ ''static const std::string g_sDirectory = '' @ [NL]
                     @ stringLiteral f (linesOf e f) @ post)"
    by blast
  from 1 2 3 4 show ?thesis by blast
qed

theorem name_conflict_reported_not_fatal_witness:
  "snd (minify clashEnv (parseArgs (argv clashEnv)) [''in/foo.hlsl'', ''in/Directory.hlsl''] emptyWorld) = None
   \<and> ''Invalid HLSL filename Directory.hlsl name conflict with built-in directory map named g_sDirectory''
       \<in> set (stdout (fst (minify clashEnv (parseArgs (argv clashEnv))
                              [''in/foo.hlsl'', ''in/Directory.hlsl''] emptyWorld)))"
proof -
  have a: "can_write clashEnv (outputFile (parseArgs (argv clashEnv)))"
    by (simp add: clashEnv_def)
  have b: "list_all (readable clashEnv) [''in/foo.hlsl'', ''in/Directory.hlsl'']"
    by (simp add: clashEnv_def readable_def)
  have c: "''in/Directory.hlsl'' \<in> set [''in/foo.hlsl'', ''in/Directory.hlsl'']" by simp
  have d: "stringName ''in/Directory.hlsl'' = directorySymbolName"
    by (simp add: stringName_def directorySymbolName_def splitext_def basename_def)
  have bn: "basename ''in/Directory.hlsl'' = ''Directory.hlsl''" by (simp add: basename_def)
  note t = name_conflict_reported_not_fatal [OF a b c d, of emptyWorld]
  from t have 1: "snd (minify clashEnv (parseArgs (argv clashEnv))
                    [''in/foo.hlsl'', ''in/Directory.hlsl''] emptyWorld) = None"
    by (rule conjunct1)
  from t have 2: "conflictMessage ''in/Directory.hlsl''
       \<in> set (stdout (fst (minify clashEnv (parseArgs (argv clashEnv))
                              [''in/foo.hlsl'', ''in/Directory.hlsl''] emptyWorld)))"
    by (rule conjunct2 [THEN conjunct1])
  have 3: "conflictMessage ''in/Directory.hlsl'' =
      ''Invalid HLSL filename Directory.hlsl name conflict with built-in directory map named g_sDirectory''"
    by (simp add: conflictMessage_def bn directorySymbolName_def)
  from 1 2 [unfolded 3] show ?thesis by (rule conjI)
qed

section \<open>Line count of a generated string\<close>














section \<open>Round trip against the specification's line form\<close>

text \<open>
  The script's collapsing of blanks is the one the specification describes, and on a
  terminated line so is its comment removal; so is it on any line without a marker.
  For these lines the decoded literal is the specification's line form.
\<close>

lemma specCollapse_run: "specCollapse True cs = specCollapse False (dropWhile blank cs)"
  by (induction cs) simp_all

lemma removeExtraWhitespace_spec: "removeExtraWhitespace s = specCollapse False s"
  by (induction s rule: removeExtraWhitespace.induct) (simp_all add: specCollapse_run)

lemma removeComments_line:
  "NL \<notin> set body \<Longrightarrow> removeComments (body @ [NL]) = beforeMarker body @ [NL]"
proof (induction body)
  case Nil
  show ?case by simp
next
  case (Cons c body)
  then have nl: "NL \<notin> set body" by simp
  then have drop: "dropWhile (\<lambda>d. d \<noteq> NL) (body @ [NL]) = [NL]"
    by (induction body) auto
  have tk: "take (Suc 0) (body @ [NL]) = ''/'' \<longleftrightarrow> take (Suc 0) body = ''/''"
    by (cases body) auto
  show ?case
    using Cons.IH [OF nl] drop tk by simp
qed

lemma removeComments_unmarked:
  "\<not> contains ''//'' line \<Longrightarrow> removeComments line = beforeMarker line"
  by (induction line) (auto simp: take1_slash)

lemma beforeMarker_unmarked: "\<not> contains ''//'' s \<Longrightarrow> beforeMarker s = s"
  by (induction s) (auto simp: take1_slash)

lemma minifyLine_roundtrip_terminated:
  "NL \<notin> set body \<Longrightarrow> unescape (minifyLine (body @ [NL])) = Some (specLineForm (body @ [NL]))"
  by (simp add: minifyLine_decodes removeComments_line removeExtraWhitespace_spec
        specLineForm_def specCommentStripped_def)

lemma minifyLine_roundtrip_unmarked:
  "\<not> contains ''//'' line \<Longrightarrow> NL \<notin> set line \<Longrightarrow>
   unescape (minifyLine line) = Some (specLineForm line)"
proof -
  assume m: "\<not> contains ''//'' line" and n: "NL \<notin> set line"
  from n have "line = [] \<or> last line \<noteq> NL" by (cases line rule: rev_cases) auto
  then have c: "specCommentStripped line = beforeMarker line"
    by (auto simp: specCommentStripped_def)
  show ?thesis
    by (simp add: minifyLine_decodes removeComments_unmarked [OF m] removeExtraWhitespace_spec
          specLineForm_def c)
qed

text \<open>
  C2. For a last line that has no terminator and ends in a comment, the decoded literal
  is the whole line, comment included, where the comment-stripped, whitespace-collapsed
  form of the line ends before the marker.
\<close>

theorem roundtrip_keeps_last_line_comment:
  "unescape (minifyLine ''x = 1; // note'') = Some ''x = 1; // note''
   \<and> specLineForm ''x = 1; // note'' = ''x = 1; ''"
proof -
  have "removeExtraWhitespace (removeComments ''x = 1; // note'') = ''x = 1; // note''"
    by (simp add: blank_def isspace_def)
  moreover have "specLineForm ''x = 1; // note'' = ''x = 1; ''"
    by (simp add: specLineForm_def specCommentStripped_def blank_def isspace_def)
  ultimately show ?thesis by (simp add: minifyLine_decodes)
qed


section \<open>Entry point, from the scan to the compiler\<close>

text \<open>
  A run that has to rebuild hands the file kept by the scan to the generation stage,
  and the packer builds its command from the file it is given.
\<close>

lemma main_rebuild:
  assumes argc: "3 \<le> length (argv e)" "length (argv e) \<le> 6"
      and a: "a = parseArgs (argv e)"
      and files: "files = glob e (hlslFolder a @ ''/*.*sl*'')"
      and stat: "list_all (\<lambda>f. st_mtime e f \<noteq> None) files"
      and newer: "\<exists>f \<in> set files. \<exists>m. st_mtime e f = Some m \<and> m > outputModTime e a"
  shows "main e w = generate e a files
           (if filter (contains (mainEntryPoint a)) files = [] then []
            else last (filter (contains (mainEntryPoint a)) files)) w"
proof -
  define ep where "ep = (if filter (contains (mainEntryPoint a)) files = [] then []
             else last (filter (contains (mainEntryPoint a)) files))"
  have scan: "scanFiles e (mainEntryPoint a) (outputModTime e a) files (False, []) = Inr (True, ep)"
    using scanFiles_result [OF stat, of "mainEntryPoint a" "outputModTime e a" False "[]"] newer
    by (simp add: ep_def)
  have "\<not> (length (argv e) < 3 \<or> length (argv e) > 6)"
    using argc by simp
  then have "main e w = generate e a files ep w"
    unfolding main_def Let_def a [symmetric] files [symmetric] scan by simp
  then show ?thesis by (simp add: ep_def)
qed

lemma binaryPacker_compiles:
  assumes tgt: "platformTarget (platform_system e) = Some tgt"
      and j: "j = compileJob a ep tgt"
  shows "subprocess_run e (cmd j) = None \<Longrightarrow>
           binaryPacker e a ep w = (print (announce j) w, Some (Uncaught OSError))"
    and "subprocess_run e (cmd j) = Some (rc, err) \<Longrightarrow> rc \<noteq> 0 \<Longrightarrow>
           binaryPacker e a ep w =
             (print err (print (''Compliation failed on '' @ ep) (print (announce j) w)),
              Some (SysExit (- 1)))"
  using tgt by (simp_all add: binaryPacker_def chooseTarget_platform Let_def j [symmetric])

text \<open>
  C10. The entry point is chosen by containment: a file is a candidate exactly when
  the entry point name occurs somewhere in its path as found, and the scan keeps the
  last candidate in discovery order (the empty string when there is none). In a run
  that rebuilds, with a compiler given and a candidate found, that last candidate is
  the file the packer stage is run on: it is the second entry of the command handed
  to \<^verbatim>\<open>subprocess.run\<close>, and what the script does next is decided by the result of
  that command.
\<close>

theorem entry_point_is_last_containing:
  assumes argc: "3 \<le> length (argv e)" "length (argv e) \<le> 6"
      and a: "a = parseArgs (argv e)"
      and files: "files = glob e (hlslFolder a @ ''/*.*sl*'')"
      and stat: "list_all (\<lambda>f. st_mtime e f \<noteq> None) files"
      and newer: "\<exists>f \<in> set files. \<exists>m. st_mtime e f = Some m \<and> m > outputModTime e a"
      and cands: "candidates = filter (contains (mainEntryPoint a)) files"
      and found: "candidates \<noteq> []" "last candidates \<noteq> []"
      and compiler: "slangc a \<noteq> []"
      and tgt: "platformTarget (platform_system e) = Some tgt"
      and j: "j = compileJob a (last candidates) tgt"
  shows "(\<exists>rebuildNeeded.
            scanFiles e mep t files (False, []) =
              Inr (rebuildNeeded,
                   if filter (contains mep) files = [] then []
                   else last (filter (contains mep) files)))
         \<and> (contains mep f \<longleftrightarrow> (\<exists>pre post. f = pre @ mep @ post))
         \<and> main e w = (case binaryPacker e a (last candidates) w of
                         (w1, Some x) \<Rightarrow> (w1, Some x)
                       | (w1, None) \<Rightarrow> minify e a files w1)
         \<and> cmd j ! 0 = slangc a \<and> cmd j ! 1 = last candidates
         \<and> (subprocess_run e (cmd j) = None \<longrightarrow>
              main e w = (print (announce j) w, Some (Uncaught OSError)))
         \<and> (\<forall>rc err. subprocess_run e (cmd j) = Some (rc, err) \<and> rc \<noteq> 0 \<longrightarrow>
              main e w =
                (print err (print (''Compliation failed on '' @ last candidates) (print (announce j) w)),
                 Some (SysExit (- 1))))"
proof -
  have 1: "\<exists>rebuildNeeded.
            scanFiles e mep t files (False, []) =
              Inr (rebuildNeeded,
                   if filter (contains mep) files = [] then []
                   else last (filter (contains mep) files))"
    using scanFiles_result [OF stat, of mep t False "[]"] by simp
  have 2: "contains mep f \<longleftrightarrow> (\<exists>pre post. f = pre @ mep @ post)"
    by (rule contains_iff)
  have g: "main e w = generate e a files (last candidates) w"
    using main_rebuild [OF argc a files stat newer, of w] found(1) by (simp add: cands)
  have en: "packerEnabled a (last candidates)"
    using compiler found(2) by (simp add: packerEnabled_def)
  have 3: "main e w = (case binaryPacker e a (last candidates) w of
                         (w1, Some x) \<Rightarrow> (w1, Some x)
                       | (w1, None) \<Rightarrow> minify e a files w1)"
    using g en by (simp add: generate_def)
  have 4: "cmd j ! 0 = slangc a \<and> cmd j ! 1 = last candidates"
    by (simp add: j compileJob_def Let_def)
  have 5: "subprocess_run e (cmd j) = None \<longrightarrow>
              main e w = (print (announce j) w, Some (Uncaught OSError))"
    using binaryPacker_compiles(1) [OF tgt j, of w] by (simp add: 3)
  have 6: "\<forall>rc err. subprocess_run e (cmd j) = Some (rc, err) \<and> rc \<noteq> 0 \<longrightarrow>
              main e w =
                (print err (print (''Compliation failed on '' @ last candidates) (print (announce j) w)),
                 Some (SysExit (- 1)))"
    using binaryPacker_compiles(2) [OF tgt j, of _ _ w] by (simp add: 3)
  from 1 2 3 4 5 6 show ?thesis by blast
qed

theorem entry_point_is_last_containing_witness:
  "filter (contains ''MainEntryPoints'')
      [''in/MainEntryPoints.slang'', ''in/foo.hlsl'', ''in/OldMainEntryPoints2.slang'']
     = [''in/MainEntryPoints.slang'', ''in/OldMainEntryPoints2.slang'']
   \<and> main entryEnv emptyWorld =
       (print ''syntax error''
          (print ''Compliation failed on in/OldMainEntryPoints2.slang''
             (print ''Compiling main entry point in/OldMainEntryPoints2.slang with Slang compiler bin/slangc to SPIRV in header out/MainEntryPoints.h''
                emptyWorld)),
        Some (SysExit (- 1)))"
proof -
  let ?files = "[''in/MainEntryPoints.slang'', ''in/foo.hlsl'', ''in/OldMainEntryPoints2.slang'']"
  let ?cands = "[''in/MainEntryPoints.slang'', ''in/OldMainEntryPoints2.slang'']"
  let ?a = "parseArgs (argv entryEnv)"
  let ?j = "compileJob ?a ''in/OldMainEntryPoints2.slang'' ''spirv''"
  have pa: "?a = \<lparr>hlslFolder = ''in'', outputFile = ''out/Shaders.h'', nameSpaceName = ''Shaders'',
                   slangc = ''bin/slangc'', mainEntryPoint = ''MainEntryPoints'', target = []\<rparr>"
    by (simp add: entryEnv_def parseArgs_def splitext_def basename_def)
  have argc: "3 \<le> length (argv entryEnv)" "length (argv entryEnv) \<le> 6"
    by (simp_all add: entryEnv_def)
  have files: "?files = glob entryEnv (hlslFolder ?a @ ''/*.*sl*'')"
    by (simp add: pa) (simp add: entryEnv_def)
  have stat: "list_all (\<lambda>f. st_mtime entryEnv f \<noteq> None) ?files"
    by (simp add: entryEnv_def)
  have newer: "\<exists>f \<in> set ?files. \<exists>m. st_mtime entryEnv f = Some m \<and> m > outputModTime entryEnv ?a"
    by (simp add: pa outputModTime_def) (simp add: entryEnv_def)
  have cands: "?cands = filter (contains (mainEntryPoint ?a)) ?files"
    by (simp add: pa)
  have found: "?cands \<noteq> []" "last ?cands \<noteq> []" by simp_all
  have compiler: "slangc ?a \<noteq> []" by (simp add: pa)
  have tgt: "platformTarget (platform_system entryEnv) = Some ''spirv''"
    by (simp add: entryEnv_def platformTarget_def)
  have j: "?j = compileJob ?a (last ?cands) ''spirv''" by simp
  have cj: "cmd ?j = [''bin/slangc'', ''in/OldMainEntryPoints2.slang'', ''-target'',
                      ''spirv'', ''-o'', ''out/MainEntryPoints.spv'']"
    by (simp add: pa compileJob_def dirname_def Let_def)
  have aj: "announce ?j = ''Compiling main entry point in/OldMainEntryPoints2.slang with Slang compiler bin/slangc to SPIRV in header out/MainEntryPoints.h''"
    by (simp add: pa compileJob_def dirname_def Let_def)
  have run: "subprocess_run entryEnv (cmd ?j) = Some (1, ''syntax error'') \<and> (1::int) \<noteq> 0"
    unfolding cj by (simp add: entryEnv_def)
  note t = entry_point_is_last_containing [OF argc refl files stat newer cands found compiler tgt j,
             of "''MainEntryPoints''" 0 "''in/foo.hlsl''" emptyWorld]
  from t have "\<forall>rc err. subprocess_run entryEnv (cmd ?j) = Some (rc, err) \<and> rc \<noteq> 0 \<longrightarrow>
              main entryEnv emptyWorld =
                (print err (print (''Compliation failed on '' @ last ?cands) (print (announce ?j) emptyWorld)),
                 Some (SysExit (- 1)))"
    by blast
  with run have "main entryEnv emptyWorld =
                (print ''syntax error'' (print (''Compliation failed on '' @ last ?cands) (print (announce ?j) emptyWorld)),
                 Some (SysExit (- 1)))"
    by blast
  then have m: "main entryEnv emptyWorld =
       (print ''syntax error''
          (print ''Compliation failed on in/OldMainEntryPoints2.slang''
             (print ''Compiling main entry point in/OldMainEntryPoints2.slang with Slang compiler bin/slangc to SPIRV in header out/MainEntryPoints.h''
                emptyWorld)),
        Some (SysExit (- 1)))"
    unfolding aj by simp
  have "filter (contains ''MainEntryPoints'') ?files = ?cands" by simp
  with m show ?thesis by (rule conjI [rotated])
qed

end
